theory Spec2Isabelle
  imports Complex_Main "HOL-Library.Word" "HOL-Library.Signed_Division" "HOL-Library.Multiset"
begin

section \<open>Shared values: bigints, errors, log entries\<close>

text \<open>
  A JavaScript \<^verbatim>\<open>bigint\<close> is an unbounded integer: \<^typ>\<open>int\<close>. Its division
  \<^verbatim>\<open>a / b\<close> truncates toward zero, which is \<open>sdiv\<close> on \<^typ>\<open>int\<close> and not \<open>div\<close>
  (that one rounds toward minus infinity). A division by \<^verbatim>\<open>0n\<close> throws; the two
  divisions of the update conditions are reached with a non-zero divisor only.
\<close>

type_synonym bigint = int

datatype error = Error string

datatype log_level = Debug | Info | Warn | ErrorLevel

datatype log_entry = Log log_level string

section \<open>Constants (src/constants.ts)\<close>

definition HUNDRED_PERCENT :: bigint where
  \<comment> \<open>\<^verbatim>\<open>BigInt(HUNDRED_PERCENT)\<close> with \<^verbatim>\<open>HUNDRED_PERCENT = 1e8\<close>\<close>
  "HUNDRED_PERCENT = 100000000"



text \<open>
  Modelled from the spec: the constant \<^verbatim>\<open>UINT256_MAX\<close> is imported by the update
  conditions from the constants module, whose declaration of it is not part of the sources
  at hand. The spec calls the value returned for a zero reference denominator the maximal
  deviation; the name fixes it as Solidity's \<^verbatim>\<open>type(uint256).max\<close>.
\<close>

definition UINT256_MAX :: bigint where
  "UINT256_MAX = 2 ^ 256 - 1"

section \<open>Update conditions\<close>

definition abs_bigint :: "bigint \<Rightarrow> bigint" where
  \<comment> \<open>\<^verbatim>\<open>abs = (n) => (n < 0n ? -n : n)\<close> of src/utils.ts\<close>
  "abs_bigint n = (if n < 0 then - n else n)"

definition calculateDeviationPercentage :: "bigint \<Rightarrow> bigint \<Rightarrow> bigint \<Rightarrow> bigint" where
  "calculateDeviationPercentage initialValue updatedValue deviationReference =
     (let absoluteDelta = abs_bigint (updatedValue - initialValue) in
      if absoluteDelta = 0 then 0
      else
        let absoluteInitialValue = abs_bigint (deviationReference - initialValue) in
        if absoluteInitialValue = 0 then UINT256_MAX
        else (absoluteDelta * HUNDRED_PERCENT) sdiv absoluteInitialValue)"

definition calculateMedian :: "bigint list \<Rightarrow> error + bigint" where
  \<comment> \<open>the comparator orders bigints by \<open><\<close>, so the sorted copy is \<open>sort arr\<close>\<close>
  "calculateMedian arr =
     (if length arr = 0 then Inl (Error ''Cannot calculate median of empty array'')
      else
        let mid = length arr div 2;
            nums = sort arr
        in Inr (if length arr mod 2 = 0 then (nums ! (mid - 1) + nums ! mid) sdiv 2
                else nums ! mid))"

definition isDeviationThresholdExceeded :: "bigint \<Rightarrow> bigint \<Rightarrow> bigint \<Rightarrow> bigint \<Rightarrow> bool" where
  "isDeviationThresholdExceeded onChainValue deviationThreshold apiValue deviationReference =
     (let updateInPercentage = calculateDeviationPercentage onChainValue apiValue deviationReference
      in updateInPercentage \<ge> deviationThreshold)"

text \<open>
  \<^verbatim>\<open>Date.now()\<close> is an input of the model: \<open>nowMs\<close>, the milliseconds since the epoch.
  \<^verbatim>\<open>Math.floor(Date.now() / 1000)\<close> is \<open>nowMs div 1000\<close>.
\<close>

definition isOnChainDataFresh :: "int \<Rightarrow> bigint \<Rightarrow> bigint \<Rightarrow> bool" where
  "isOnChainDataFresh nowMs timestamp heartbeatInterval =
     (timestamp > nowMs div 1000 - heartbeatInterval)"

text \<open>
  The function returns a boolean and writes to the logger; the model returns both, the
  log entries in the order they are written. No branch throws.
\<close>

definition isDataFeedUpdatable ::
  "int \<Rightarrow> bigint \<Rightarrow> bigint \<Rightarrow> bigint \<Rightarrow> bigint \<Rightarrow> bigint \<Rightarrow> bigint \<Rightarrow> bigint \<Rightarrow> bool \<times> log_entry list" where
  "isDataFeedUpdatable nowMs onChainValue onChainTimestamp offChainValue offChainTimestamp
       heartbeatInterval deviationThreshold deviationReference =
     (if offChainTimestamp \<le> onChainTimestamp then
        (False,
         if offChainTimestamp < onChainTimestamp
         then [Log Warn ''Off-chain sample's timestamp is older than on-chain timestamp.'']
         else [])
      else if onChainTimestamp = 0 then (True, [])
      else
        let isFreshEnough = isOnChainDataFresh nowMs onChainTimestamp heartbeatInterval in
        if isFreshEnough then
          (if deviationThreshold = 0 then (False, [Log Info ''Deviation threshold is zero.''])
           else if isDeviationThresholdExceeded onChainValue deviationThreshold offChainValue
                     deviationReference
           then (True, [Log Info ''Deviation exceeded.''])
           else (False, []))
        else
          (if heartbeatInterval = 0 then (False, [Log Info ''Heartbeat interval is zero.''])
           else (True, [Log Info ''On-chain timestamp is older than the heartbeat interval.''])))"

section \<open>Decoding a beacon value (src/utils.ts)\<close>


section \<open>The median on a store of arrays\<close>

text \<open>
  A JavaScript array is a mutable object behind a reference. To say what a call does to
  its argument, arrays live in a store: the reference \<open>r\<close> is the index of the array
  \<open>s ! r\<close>. The spread \<^verbatim>\<open>[...arr]\<close> allocates a new array with the elements of
  \<^verbatim>\<open>arr\<close>; \<^verbatim>\<open>Array.prototype.sort\<close> sorts the array it is called on in place and
  returns the same reference.
\<close>

type_synonym array_ref = nat

type_synonym store = "bigint list list"

definition array_spread :: "array_ref \<Rightarrow> store \<Rightarrow> array_ref \<times> store" where
  "array_spread r s = (length s, s @ [s ! r])"

definition array_sort :: "array_ref \<Rightarrow> store \<Rightarrow> array_ref \<times> store" where
  "array_sort r s = (r, s[r := sort (s ! r)])"

definition calculateMedian_store :: "array_ref \<Rightarrow> store \<Rightarrow> (error + bigint) \<times> store" where
  "calculateMedian_store arr s =
     (if length (s ! arr) = 0
      then (Inl (Error ''Cannot calculate median of empty array''), s)
      else
        let mid = length (s ! arr) div 2;
            (copy, s1) = array_spread arr s;
            (nums, s2) = array_sort copy s1
        in (Inr (if length (s2 ! arr) mod 2 = 0
                 then ((s2 ! nums) ! (mid - 1) + (s2 ! nums) ! mid) sdiv 2
                 else (s2 ! nums) ! mid),
            s2))"

section \<open>The update-feed cycle\<close>

text \<open>
  A JavaScript \<^verbatim>\<open>number\<close> that holds a count or a quotient of counts is modelled as an
  exact rational: \<^verbatim>\<open>totalCount / dataFeedBatchSize\<close> is a division of numbers, not an
  integer division. The counts are safe integers (\<^verbatim>\<open>toNumber()\<close> throws beyond
  \<open>2 ^ 53 - 1\<close>), and for those the rounding of the double quotient never reaches or
  crosses an integer, so the ceiling taken by \<^verbatim>\<open>range\<close> is that of the exact quotient.
\<close>

text \<open>
  lodash's \<^verbatim>\<open>range(start, end)\<close> without a step: the step is \<open>1\<close> when
  \<^verbatim>\<open>start < end\<close> and \<open>-1\<close> otherwise, the length is
  \<^verbatim>\<open>max(ceil((end - start) / step), 0)\<close>, and the elements are \<^verbatim>\<open>start + k * step\<close>.
\<close>

definition lodash_range :: "int \<Rightarrow> rat \<Rightarrow> int list" where
  "lodash_range start stop =
     (let step = (if of_int start < stop then 1 else - 1);
          len = max \<lceil>(stop - of_int start) / of_int step\<rceil> 0
      in map (\<lambda>k. start + int k * step) [0..<nat len])"

record chain =
  dataFeedBatchSize :: nat
  dataFeedUpdateInterval :: rat

text \<open>
  The remote registry as the cycle sees it: what \<^verbatim>\<open>readDapis(offset, limit)\<close> and
  \<^verbatim>\<open>(await dapisCount()).toNumber()\<close> answer, a value or a failure. The answers do not
  change during a cycle.
\<close>

record 'a registry =
  readDapis :: "nat \<Rightarrow> nat \<Rightarrow> error + 'a list"
  dapisCount :: "error + nat"


text \<open>
  What a cycle does is observed as a trace: the log entries written, the remote reads
  issued and the batches handed to \<^verbatim>\<open>processBatch\<close>, in order. A cycle starts on the
  process state with an empty trace and ends with the process state it leaves and the
  trace of what it did. Sleeps and the clock only delay the reads; they are left out.
\<close>

datatype 'a event =
    Logged log_level string
  | ReadDapisCall nat nat
  | DapisCountCall
  | ProcessBatchCall "'a list"

record ('s, 'a) cycle =
  procState :: 's
  trace :: "'a event list"

definition emit :: "'a event \<Rightarrow> ('s, 'a) cycle \<Rightarrow> ('s, 'a) cycle" where
  "emit e c = c\<lparr>trace := trace c @ [e]\<rparr>"

definition processBatch :: "'a list \<Rightarrow> ('s, 'a) cycle \<Rightarrow> ('s, 'a) cycle" where
  \<comment> \<open>the body is still to be implemented: the call is observed, the state is not touched\<close>
  "processBatch batch c = emit (ProcessBatchCall batch) c"

fun fetchOtherBatches ::
  "'a registry \<Rightarrow> nat \<Rightarrow> int list \<Rightarrow> ('s, 'a) cycle \<Rightarrow> (error + 'a list) list \<times> ('s, 'a) cycle" where
  "fetchOtherBatches dapiDataRegistry B [] c = ([], c)"
| "fetchOtherBatches dapiDataRegistry B (batchIndex # rest) c =
     (let c1 = emit (Logged Debug ''Fetching batch of active dAPIs'') c;
          offset = nat (batchIndex * int B);
          c2 = emit (ReadDapisCall offset B) c1;
          r = readDapis dapiDataRegistry offset B;
          (rs, c3) = fetchOtherBatches dapiDataRegistry B rest c2
      in (r # rs, c3))"

definition logRejected :: "(error + 'a list) \<Rightarrow> ('s, 'a) cycle \<Rightarrow> ('s, 'a) cycle" where
  "logRejected batch c =
     (case batch of
        Inl reason \<Rightarrow> emit (Logged ErrorLevel ''Failed to get active dAPIs batch'') c
      | Inr v \<Rightarrow> c)"

definition processFulfilled :: "(error + 'a list) \<Rightarrow> ('s, 'a) cycle \<Rightarrow> ('s, 'a) cycle" where
  "processFulfilled result c =
     (case result of Inl reason \<Rightarrow> c | Inr v \<Rightarrow> processBatch v c)"

definition runUpdateFeed :: "'a registry \<Rightarrow> chain \<Rightarrow> 's \<Rightarrow> ('s, 'a) cycle" where
  "runUpdateFeed dapiDataRegistry chain s =
     (let B = dataFeedBatchSize chain;
          c0 = \<lparr>procState = s, trace = []\<rparr>;
          c1 = emit (Logged Debug ''Fetching first batch of dAPIs batches'') c0;
          c2 = emit (ReadDapisCall 0 B) c1
      in case readDapis dapiDataRegistry 0 B of
           Inl e \<Rightarrow> emit (Logged ErrorLevel ''Failed to get first active dAPIs batch'') c2
         | Inr firstBatch \<Rightarrow>
             (let c3 = emit DapisCountCall c2
              in case dapisCount dapiDataRegistry of
                   Inl e \<Rightarrow>
                     emit (Logged ErrorLevel ''Failed to get first active dAPIs batch'') c3
                 | Inr totalCount \<Rightarrow>
                     (let c4 = processBatch firstBatch c3;
                          batchesCount = (of_nat totalCount / of_nat B :: rat);
                          c5 = emit (Logged Debug ''Fetching batches of active dAPIs'') c4;
                          (otherBatches, c6) =
                            fetchOtherBatches dapiDataRegistry B (lodash_range 1 batchesCount) c5;
                          c7 = fold logRejected otherBatches c6
                      in fold processFulfilled otherBatches c7)))"

definition readCalls :: "'a event list \<Rightarrow> (nat \<times> nat) list" where
  "readCalls evs =
     concat (map (\<lambda>e. case e of ReadDapisCall ofs len \<Rightarrow> [(ofs, len)] | _ \<Rightarrow> []) evs)"

definition processedBatches :: "'a event list \<Rightarrow> 'a list list" where
  "processedBatches evs = concat (map (\<lambda>e. case e of ProcessBatchCall b \<Rightarrow> [b] | _ \<Rightarrow> []) evs)"

definition loggedErrors :: "'a event list \<Rightarrow> string list" where
  "loggedErrors evs =
     concat (map (\<lambda>e. case e of Logged ErrorLevel m \<Rightarrow> [m] | _ \<Rightarrow> []) evs)"

section \<open>Signed-API URL entries\<close>

record signed_api_url =
  url :: string
  lastReceivedMs :: nat

text \<open>
  Modelled from the spec: \<^verbatim>\<open>mergeUrls\<close> is imported by the tests from the update-feeds
  module, whose definition of it is not part of the sources at hand. The spec: entries are
  deduplicated by URL; merging two sets keeps, per URL, the entry with the greater
  \<^verbatim>\<open>lastReceivedMs\<close> and otherwise includes URLs present in either input. The entries
  of both inputs are entered one by one into the result: an entry whose URL is new is
  added, an entry whose URL is there replaces the one there when its \<^verbatim>\<open>lastReceivedMs\<close>
  is greater.
\<close>

fun upsertUrl :: "signed_api_url \<Rightarrow> signed_api_url list \<Rightarrow> signed_api_url list" where
  "upsertUrl e [] = [e]"
| "upsertUrl e (x # xs) =
     (if url x = url e
      then (if lastReceivedMs e > lastReceivedMs x then e else x) # xs
      else x # upsertUrl e xs)"

definition mergeUrls :: "signed_api_url list \<Rightarrow> signed_api_url list \<Rightarrow> signed_api_url list" where
  "mergeUrls oldUrls newUrls = fold upsertUrl (oldUrls @ newUrls) []"

section \<open>The signed-data fetcher (src/signed-api-fetch/data-fetcher.ts)\<close>

text \<open>
  The runtime holds the process state, the interval timers that are registered and the
  log. A timer is its handle, its period in milliseconds and the callback it runs;
  \<^verbatim>\<open>setInterval\<close> returns a handle that no other timer has, \<^verbatim>\<open>clearInterval\<close> removes
  the timer of a handle and does nothing for \<^verbatim>\<open>undefined\<close>. A handle is a Node
  \<^verbatim>\<open>Timeout\<close> object, which is never falsy: the model numbers the handles, and the test
  \<^verbatim>\<open>!dataFetcherInterval\<close> is the test for \<open>None\<close>.
\<close>

type_synonym timer_handle = nat

datatype callback = RunDataFetcher | RunUpdateFeed string string

record timer =
  handle :: timer_handle
  periodMs :: rat
  callback :: callback

record signed_data =
  airnode :: string
  templateId :: string
  timestamp :: nat
  encodedValue :: string

record beacon =
  airnodeAddress :: string
  beaconTemplateId :: string

text \<open>
  The part of the process state the fetcher reads and writes. \<open>signedApiUrlStore\<close> is a
  dictionary of dictionaries of dictionaries, whose leaves hold URLs; a dictionary is the
  list of its entries in the order \<^verbatim>\<open>Object.values\<close> enumerates them. \<open>signedApiStore\<close>
  is the data-point store, which only the functions of the signed-data store write.
\<close>

record 'st state =
  signedDataFetchInterval :: rat
  signedApiUrlStore :: "(string \<times> (string \<times> (string \<times> string list) list) list) list"
  dataFetcherInterval :: "timer_handle option"
  signedApiStore :: 'st

record 'st runtime =
  state :: "'st state"
  timers :: "timer list"
  nextTimer :: timer_handle
  logs :: "log_entry list"

definition logger :: "log_level \<Rightarrow> string \<Rightarrow> 'st runtime \<Rightarrow> 'st runtime" where
  "logger level message rt = rt\<lparr>logs := logs rt @ [Log level message]\<rparr>"

definition updateState :: "('st state \<Rightarrow> 'st state) \<Rightarrow> 'st runtime \<Rightarrow> 'st runtime" where
  "updateState updater rt = rt\<lparr>state := updater (state rt)\<rparr>"

definition setInterval :: "callback \<Rightarrow> rat \<Rightarrow> 'st runtime \<Rightarrow> timer_handle \<times> 'st runtime" where
  "setInterval cb ms rt =
     (nextTimer rt,
      rt\<lparr>timers := timers rt @ [\<lparr>handle = nextTimer rt, periodMs = ms, callback = cb\<rparr>],
         nextTimer := Suc (nextTimer rt)\<rparr>)"

definition clearInterval :: "timer_handle option \<Rightarrow> 'st runtime \<Rightarrow> 'st runtime" where
  "clearInterval h rt = rt\<lparr>timers := filter (\<lambda>t. Some (handle t) \<noteq> h) (timers rt)\<rparr>"

definition stopDataFetcher :: "'st runtime \<Rightarrow> 'st runtime" where
  "stopDataFetcher rt = clearInterval (dataFetcherInterval (state rt)) rt"

definition uniq :: "'a list \<Rightarrow> 'a list" where
  \<comment> \<open>lodash's \<^verbatim>\<open>uniq\<close>: the first occurrence of each element, in order\<close>
  "uniq xs = fold (\<lambda>x seen. if x \<in> set seen then seen else seen @ [x]) xs []"

text \<open>
  What lies outside the sources at hand is a parameter of the fetcher: the answer of the
  HTTP call behind \<^verbatim>\<open>callSignedDataApi\<close> for each URL, the beacons of the active dAPIs,
  and the two functions of the signed-data store, which act on the data-point store.
  The fetches of one tick run concurrently; the model takes them in the order of the URLs.
\<close>

definition fetchUrl ::
  "(string \<Rightarrow> error + signed_data list) \<Rightarrow> beacon list \<Rightarrow> (signed_data \<Rightarrow> 'st \<Rightarrow> 'st) \<Rightarrow>
   string \<Rightarrow> 'st runtime \<Rightarrow> 'st runtime" where
  "fetchUrl callSignedDataApi activeBeacons setStoreDataPoint u rt =
     (case callSignedDataApi u of
        Inl e \<Rightarrow> logger Warn ''Failed to fetch data from signed API'' rt
      | Inr response \<Rightarrow>
          (let beaconsForActiveDApis =
                 filter (\<lambda>signedData.
                     find (\<lambda>b. airnodeAddress b = airnode signedData \<and>
                                beaconTemplateId b = templateId signedData) activeBeacons \<noteq> None)
                   response
           in fold (\<lambda>element. updateState (\<lambda>draft.
                      draft\<lparr>signedApiStore := setStoreDataPoint element (signedApiStore draft)\<rparr>))
                beaconsForActiveDApis rt))"

definition runDataFetcher ::
  "(string \<Rightarrow> error + signed_data list) \<Rightarrow> beacon list \<Rightarrow> (signed_data \<Rightarrow> 'st \<Rightarrow> 'st) \<Rightarrow>
   ('st \<Rightarrow> 'st) \<Rightarrow> 'st runtime \<Rightarrow> 'st runtime" where
  "runDataFetcher callSignedDataApi activeBeacons setStoreDataPoint purgeInactiveDataPoints rt0 =
     (let rt1 = logger Debug ''Running data fetcher'' rt0;
          st = state rt1;
          signedDataFetchIntervalMs = signedDataFetchInterval st * 1000;
          rt2 = (if dataFetcherInterval st = None
                 then (let (newInterval, rt) = setInterval RunDataFetcher signedDataFetchIntervalMs rt1
                       in updateState (\<lambda>draft. draft\<lparr>dataFetcherInterval := Some newInterval\<rparr>) rt)
                 else rt1);
          urls = uniq (concat (map snd (concat (map snd (concat (map snd (signedApiUrlStore st)))))));
          rt3 = logger Debug ''Fetching data from signed APIs'' rt2;
          rt4 = fold (fetchUrl callSignedDataApi activeBeacons setStoreDataPoint) urls rt3
      in updateState (\<lambda>draft. draft\<lparr>signedApiStore := purgeInactiveDataPoints (signedApiStore draft)\<rparr>)
           rt4)"

text \<open>
  The runtimes the fetcher can be in: at the start no fetcher timer is registered, no
  handle is recorded and the next handle is a new one; from there the fetcher runs (by
  its timer or by a caller) and is stopped, any number of times.
\<close>

definition fetcherTimers :: "'st runtime \<Rightarrow> timer list" where
  "fetcherTimers rt = filter (\<lambda>t. callback t = RunDataFetcher) (timers rt)"

definition initial :: "'st runtime \<Rightarrow> bool" where
  "initial rt =
     (dataFetcherInterval (state rt) = None \<and> fetcherTimers rt = [] \<and>
      list_all (\<lambda>t. handle t < nextTimer rt) (timers rt))"

inductive reachable :: "'st runtime \<Rightarrow> bool" where
  start: "initial rt \<Longrightarrow> reachable rt"
| run: "reachable rt \<Longrightarrow> reachable (runDataFetcher api beacons setPoint purge rt)"
| stop: "reachable rt \<Longrightarrow> reachable (stopDataFetcher rt)"

section \<open>Notions used in the statements\<close>


definition oneFetcherTimer :: "'st runtime \<Rightarrow> bool" where
  \<comment> \<open>no fetcher timer, or exactly the one whose handle the process state records\<close>
  "oneFetcherTimer rt =
     (fetcherTimers rt = [] \<or>
      (\<exists>t. fetcherTimers rt = [t] \<and> dataFetcherInterval (state rt) = Some (handle t)))"

section \<open>Update conditions: what is proved\<close>

lemma sdiv_two_truncates: "(a::int) sdiv 2 = (if 0 \<le> a then a div 2 else - ((- a) div 2))"
  by (auto simp: signed_divide_int_def sgn_if)

text \<open>
  Claim C1 does not hold as stated: with \<open>onChainTimestamp = 0\<close> the result is \<open>False\<close> when
  the off-chain timestamp is not newer, here \<open>offChainTimestamp = 0\<close>. The check that the
  off-chain data is strictly newer comes first.
\<close>

theorem isDataFeedUpdatable_uninitialized_stale:
  "\<not> fst (isDataFeedUpdatable 1700000000000 100 0 200 0 86400 1000000 0)"
  by (simp add: isDataFeedUpdatable_def)

text \<open>
  Claim C1, amended: for every call of \<open>isDataFeedUpdatable\<close> with \<open>onChainTimestamp = 0\<close>
  and \<open>offChainTimestamp > 0\<close> the result is \<open>True\<close> (and nothing is logged), whatever
  the values, the heartbeat interval, the deviation threshold, the deviation reference and
  the clock are.
\<close>

theorem isDataFeedUpdatable_uninitialized:
  "0 < offChainTimestamp \<Longrightarrow>
   isDataFeedUpdatable nowMs onChainValue 0 offChainValue offChainTimestamp
     heartbeatInterval deviationThreshold deviationReference = (True, [])"
  by (simp add: isDataFeedUpdatable_def)

theorem isDataFeedUpdatable_uninitialized_witness:
  "(0::int) < 5 \<and> isDataFeedUpdatable 1700000000000 100 0 200 5 86400 0 0 = (True, [])"
  using isDataFeedUpdatable_uninitialized [of 5 1700000000000 100 200 86400 0 0]
  by simp

text \<open>
  Claim C2: \<open>calculateDeviationPercentage\<close> is \<open>0\<close> whenever the updated value equals the
  initial value, for every deviation reference; it is \<open>UINT256_MAX\<close> when the values differ
  and the reference equals the initial value; otherwise it is
  \<open>|updated - initial| * 10^8\<close> divided by \<open>|reference - initial|\<close>, the division
  truncating toward zero.
\<close>

theorem calculateDeviationPercentage_cases:
  "(updatedValue = initialValue \<longrightarrow>
      calculateDeviationPercentage initialValue updatedValue deviationReference = 0) \<and>
   (updatedValue \<noteq> initialValue \<and> deviationReference = initialValue \<longrightarrow>
      calculateDeviationPercentage initialValue updatedValue deviationReference = UINT256_MAX) \<and>
   (updatedValue \<noteq> initialValue \<and> deviationReference \<noteq> initialValue \<longrightarrow>
      calculateDeviationPercentage initialValue updatedValue deviationReference =
        (\<bar>updatedValue - initialValue\<bar> * 10 ^ 8) sdiv \<bar>deviationReference - initialValue\<bar>)"
  by (auto simp: calculateDeviationPercentage_def abs_bigint_def HUNDRED_PERCENT_def Let_def)

theorem calculateDeviationPercentage_cases_witness:
  "calculateDeviationPercentage 100 100 100 = 0 \<and>
   calculateDeviationPercentage 100 100 42 = 0 \<and>
   calculateDeviationPercentage 100 101 100 = UINT256_MAX \<and>
   calculateDeviationPercentage 100 107 97 = 233333333"
  using calculateDeviationPercentage_cases [of 100 100 100]
    calculateDeviationPercentage_cases [of 100 100 42]
    calculateDeviationPercentage_cases [of 101 100 100]
    calculateDeviationPercentage_cases [of 107 100 97]
  by (simp add: signed_divide_int_def)

text \<open>
  Claim C3: when the off-chain data is strictly newer and the on-chain slot is initialized,
  \<open>isDataFeedUpdatable\<close> returns \<open>False\<close> in the deviation branch (on-chain data fresh
  enough) with \<open>deviationThreshold = 0\<close>, and in the heartbeat branch (on-chain data not
  fresh enough) with \<open>heartbeatInterval = 0\<close>. It returns a value in both: one entry is
  logged at the informational level and nothing is thrown.
\<close>

theorem isDataFeedUpdatable_zero_policy:
  "onChainTimestamp < offChainTimestamp \<Longrightarrow> onChainTimestamp \<noteq> 0 \<Longrightarrow>
   (isOnChainDataFresh nowMs onChainTimestamp heartbeatInterval \<and> deviationThreshold = 0 \<longrightarrow>
      isDataFeedUpdatable nowMs onChainValue onChainTimestamp offChainValue offChainTimestamp
        heartbeatInterval deviationThreshold deviationReference
      = (False, [Log Info ''Deviation threshold is zero.''])) \<and>
   (\<not> isOnChainDataFresh nowMs onChainTimestamp heartbeatInterval \<and> heartbeatInterval = 0 \<longrightarrow>
      isDataFeedUpdatable nowMs onChainValue onChainTimestamp offChainValue offChainTimestamp
        heartbeatInterval deviationThreshold deviationReference
      = (False, [Log Info ''Heartbeat interval is zero.'']))"
  by (auto simp: isDataFeedUpdatable_def)

theorem isDataFeedUpdatable_zero_policy_witness:
  "(1699999000::int) < 1699999500 \<and> (1699999000::int) \<noteq> 0 \<and>
   isOnChainDataFresh 1700000000000 1699999000 86400 \<and>
   isDataFeedUpdatable 1700000000000 100 1699999000 250 1699999500 86400 0 0
     = (False, [Log Info ''Deviation threshold is zero.'']) \<and>
   \<not> isOnChainDataFresh 1700000000000 1699999000 0 \<and>
   isDataFeedUpdatable 1700000000000 100 1699999000 250 1699999500 0 1000000 0
     = (False, [Log Info ''Heartbeat interval is zero.''])"
  using isDataFeedUpdatable_zero_policy [of 1699999000 1699999500 1700000000000 86400 0 100 250 0]
    isDataFeedUpdatable_zero_policy [of 1699999000 1699999500 1700000000000 0 1000000 100 250 0]
  by (simp add: isOnChainDataFresh_def)

text \<open>
  Claim C4: \<open>calculateMedian\<close> of the empty list is an error. For a non-empty list, with
  \<open>nums\<close> the sorted list of its elements, it is the middle element of \<open>nums\<close> when the
  length is odd, and the sum of the two middle elements of \<open>nums\<close> divided by \<open>2\<close>, rounded
  toward zero, when the length is even. The median of \<open>[1, 2, 3, 4]\<close> is \<open>2\<close>.
\<close>

theorem calculateMedian_sorted_middle:
  "calculateMedian [] = Inl (Error ''Cannot calculate median of empty array'') \<and>
   (arr \<noteq> [] \<and> sorted nums \<and> mset nums = mset arr \<longrightarrow>
      calculateMedian arr =
        Inr (if odd (length arr) then nums ! (length arr div 2)
             else (let total = nums ! (length arr div 2 - 1) + nums ! (length arr div 2)
                   in if 0 \<le> total then total div 2 else - ((- total) div 2)))) \<and>
   calculateMedian [1, 2, 3, 4] = Inr 2"
proof (intro conjI impI)
  show "calculateMedian [] = Inl (Error ''Cannot calculate median of empty array'')"
    by (simp add: calculateMedian_def)
next
  assume a: "arr \<noteq> [] \<and> sorted nums \<and> mset nums = mset arr"
  then have "sort arr = nums"
    by (simp add: properties_for_sort)
  with a show "calculateMedian arr =
        Inr (if odd (length arr) then nums ! (length arr div 2)
             else (let total = nums ! (length arr div 2 - 1) + nums ! (length arr div 2)
                   in if 0 \<le> total then total div 2 else - ((- total) div 2)))"
    by (simp add: calculateMedian_def Let_def sdiv_two_truncates even_iff_mod_2_eq_zero)
next
  show "calculateMedian [1, 2, 3, 4] = Inr 2"
    by (simp add: calculateMedian_def signed_divide_int_def)
qed

theorem calculateMedian_sorted_middle_witness:
  "[- 5, 2, - 4 :: int] \<noteq> [] \<and> sorted [- 5, - 4, 2 :: int] \<and>
   mset [- 5, - 4, 2 :: int] = mset [- 5, 2, - 4] \<and>
   calculateMedian [- 5, 2, - 4] = Inr (- 4) \<and>
   calculateMedian [2, - 5] = Inr (- 1)"
  using calculateMedian_sorted_middle [of "[- 5, 2, - 4]" "[- 5, - 4, 2]"]
    calculateMedian_sorted_middle [of "[2, - 5]" "[- 5, 2]"]
  by simp

text \<open>
  Claim C10: \<open>calculateMedian\<close> does not change its argument. After the call the array
  behind the reference it was given holds the same elements in the same order, and so does
  every array that was in the store before; what is sorted is the copy allocated by the
  call. The value returned is the median of the argument's elements.
\<close>

theorem calculateMedian_keeps_argument:
  "arr < length s \<Longrightarrow>
   snd (calculateMedian_store arr s) ! arr = s ! arr \<and>
   take (length s) (snd (calculateMedian_store arr s)) = s \<and>
   fst (calculateMedian_store arr s) = calculateMedian (s ! arr)"
  by (simp add: calculateMedian_store_def calculateMedian_def array_spread_def array_sort_def
      Let_def nth_append)

theorem calculateMedian_keeps_argument_witness:
  "(0::nat) < length [[3, 1, 2 :: int]] \<and>
   snd (calculateMedian_store 0 [[3, 1, 2]]) ! 0 = [3, 1, 2] \<and>
   snd (calculateMedian_store 0 [[3, 1, 2]]) = [[3, 1, 2], [1, 2, 3]] \<and>
   fst (calculateMedian_store 0 [[3, 1, 2]]) = Inr 2"
  using calculateMedian_keeps_argument [of 0 "[[3, 1, 2]]"]
  by (simp add: calculateMedian_store_def calculateMedian_def array_spread_def array_sort_def)

section \<open>Decoding a beacon value: what is proved\<close>



section \<open>The update-feed cycle: what is proved\<close>

subsection \<open>The batch indices\<close>




subsection \<open>The trace of a cycle on a registry that answers every read\<close>
















text \<open>
  Claim C6: when the first read of a cycle fails, be it the read of the first page or the
  read of the total count, the cycle logs one error and returns: the process state is the
  one the cycle started on, no read but the first page's was issued, and no batch was
  processed.
\<close>

theorem runUpdateFeed_first_read_fails:
  assumes "readDapis dapiDataRegistry 0 (dataFeedBatchSize chain) = Inl e \<or>
           dapisCount dapiDataRegistry = Inl e"
  shows "procState (runUpdateFeed dapiDataRegistry chain s) = s \<and>
         loggedErrors (trace (runUpdateFeed dapiDataRegistry chain s)) =
           [''Failed to get first active dAPIs batch''] \<and>
         readCalls (trace (runUpdateFeed dapiDataRegistry chain s)) =
           [(0, dataFeedBatchSize chain)] \<and>
         processedBatches (trace (runUpdateFeed dapiDataRegistry chain s)) = []"
  using assms
  by (auto simp: runUpdateFeed_def Let_def emit_def loggedErrors_def readCalls_def
      processedBatches_def split: sum.splits)

theorem runUpdateFeed_first_read_fails_witness:
  "readDapis \<lparr>readDapis = (\<lambda>offset limit. Inl (Error ''provider-error'')),
               dapisCount = Inr 3\<rparr> 0
     (dataFeedBatchSize \<lparr>dataFeedBatchSize = 2, dataFeedUpdateInterval = 10\<rparr>) =
     (Inl (Error ''provider-error'') :: error + nat list) \<and>
   procState (runUpdateFeed
       \<lparr>readDapis = (\<lambda>offset limit. (Inl (Error ''provider-error'') :: error + nat list)),
        dapisCount = Inr 3\<rparr>
       \<lparr>dataFeedBatchSize = 2, dataFeedUpdateInterval = 10\<rparr> (7 :: nat)) = 7 \<and>
   trace (runUpdateFeed
       \<lparr>readDapis = (\<lambda>offset limit. (Inl (Error ''provider-error'') :: error + nat list)),
        dapisCount = Inr 3\<rparr>
       \<lparr>dataFeedBatchSize = 2, dataFeedUpdateInterval = 10\<rparr> (7 :: nat)) =
     [Logged Debug ''Fetching first batch of dAPIs batches'', ReadDapisCall 0 2,
      Logged ErrorLevel ''Failed to get first active dAPIs batch''] \<and>
   dapisCount \<lparr>readDapis = (\<lambda>offset limit. (Inr [10, 20] :: error + nat list)),
               dapisCount = Inl (Error ''provider-error'')\<rparr> =
     Inl (Error ''provider-error'') \<and>
   procState (runUpdateFeed
       \<lparr>readDapis = (\<lambda>offset limit. (Inr [10, 20] :: error + nat list)),
        dapisCount = Inl (Error ''provider-error'')\<rparr>
       \<lparr>dataFeedBatchSize = 2, dataFeedUpdateInterval = 10\<rparr> (7 :: nat)) = 7 \<and>
   readCalls (trace (runUpdateFeed
       \<lparr>readDapis = (\<lambda>offset limit. (Inr [10, 20] :: error + nat list)),
        dapisCount = Inl (Error ''provider-error'')\<rparr>
       \<lparr>dataFeedBatchSize = 2, dataFeedUpdateInterval = 10\<rparr> (7 :: nat))) = [(0, 2)]"
  using runUpdateFeed_first_read_fails
      [of "\<lparr>readDapis = (\<lambda>offset limit. (Inl (Error ''provider-error'') :: error + nat list)),
            dapisCount = Inr 3\<rparr>"
          "\<lparr>dataFeedBatchSize = 2, dataFeedUpdateInterval = 10\<rparr>" "Error ''provider-error''"
          "7 :: nat"]
    runUpdateFeed_first_read_fails
      [of "\<lparr>readDapis = (\<lambda>offset limit. (Inr [10, 20] :: error + nat list)),
            dapisCount = Inl (Error ''provider-error'')\<rparr>"
          "\<lparr>dataFeedBatchSize = 2, dataFeedUpdateInterval = 10\<rparr>" "Error ''provider-error''"
          "7 :: nat"]
  by (simp add: runUpdateFeed_def emit_def)

section \<open>Merging signed-API URL entries: what is proved\<close>


lemma upsertUrl_subset: "set (upsertUrl e acc) \<subseteq> insert e (set acc)"
  by (induction acc) auto

lemma upsertUrl_urls: "url ` set (upsertUrl e acc) = insert (url e) (url ` set acc)"
  by (induction acc) auto

lemma upsertUrl_distinct:
  "distinct (map url acc) \<Longrightarrow> distinct (map url (upsertUrl e acc))"
proof (induction acc)
  case Nil
  then show ?case by simp
next
  case (Cons x xs)
  have "url ` set (upsertUrl e xs) = insert (url e) (url ` set xs)"
    by (rule upsertUrl_urls)
  with Cons show ?case by auto
qed

lemma upsertUrl_dominates:
  "x \<in> insert e (set acc) \<Longrightarrow>
   \<exists>r \<in> set (upsertUrl e acc). url r = url x \<and> lastReceivedMs x \<le> lastReceivedMs r"
proof (induction acc)
  case Nil
  then show ?case by simp
next
  case (Cons a acc)
  show ?case
  proof (cases "url a = url e")
    case True
    with Cons.prems show ?thesis by (auto intro: less_imp_le)
  next
    case False
    with Cons show ?thesis by fastforce
  qed
qed

lemma fold_upsertUrl_subset: "set (fold upsertUrl es acc) \<subseteq> set es \<union> set acc"
proof (induction es arbitrary: acc)
  case Nil
  then show ?case by simp
next
  case (Cons e es)
  have "set (fold upsertUrl es (upsertUrl e acc)) \<subseteq> set es \<union> set (upsertUrl e acc)"
    by (rule Cons.IH)
  with upsertUrl_subset [of e acc] show ?case by auto
qed

lemma fold_upsertUrl_urls:
  "url ` set (fold upsertUrl es acc) = url ` set es \<union> url ` set acc"
  by (induction es arbitrary: acc) (auto simp: upsertUrl_urls)

lemma fold_upsertUrl_distinct:
  "distinct (map url acc) \<Longrightarrow> distinct (map url (fold upsertUrl es acc))"
  by (induction es arbitrary: acc) (simp_all add: upsertUrl_distinct)

lemma fold_upsertUrl_dominates:
  "x \<in> set es \<union> set acc \<Longrightarrow>
   \<exists>r \<in> set (fold upsertUrl es acc). url r = url x \<and> lastReceivedMs x \<le> lastReceivedMs r"
proof (induction es arbitrary: acc x)
  case Nil
  then show ?case by auto
next
  case (Cons e es)
  show ?case
  proof (cases "x \<in> set es")
    case True
    then show ?thesis using Cons.IH [of x "upsertUrl e acc"] by simp
  next
    case False
    with Cons.prems have "x \<in> insert e (set acc)" by auto
    then obtain r' where r': "r' \<in> set (upsertUrl e acc)" "url r' = url x"
        "lastReceivedMs x \<le> lastReceivedMs r'"
      using upsertUrl_dominates by blast
    then obtain r where "r \<in> set (fold upsertUrl es (upsertUrl e acc))" "url r = url r'"
        "lastReceivedMs r' \<le> lastReceivedMs r"
      using Cons.IH [of r' "upsertUrl e acc"] by auto
    with r' show ?thesis by (auto intro: le_trans)
  qed
qed

text \<open>
  Claim C7: merging two lists of signed-API URL entries gives one entry for each URL of
  either list and no other: the URLs of the result are distinct and are the URLs of the two
  inputs together, every entry of the result is an entry of an input, and for every entry
  of an input the result holds an entry of the same URL whose \<open>lastReceivedMs\<close> is at
  least as great; so of two entries of one URL the one with the greater \<open>lastReceivedMs\<close>
  is kept. Merging \<open>one@100, three@3\<close> with \<open>one@1, two@2\<close> gives, as a set,
  \<open>one@100, three@3, two@2\<close>.
\<close>

theorem mergeUrls_union_keeps_freshest:
  "distinct (map url (mergeUrls oldUrls newUrls)) \<and>
   url ` set (mergeUrls oldUrls newUrls) = url ` set oldUrls \<union> url ` set newUrls \<and>
   set (mergeUrls oldUrls newUrls) \<subseteq> set oldUrls \<union> set newUrls \<and>
   (\<forall>x \<in> set oldUrls \<union> set newUrls.
      \<exists>r \<in> set (mergeUrls oldUrls newUrls). url r = url x \<and> lastReceivedMs x \<le> lastReceivedMs r) \<and>
   set (mergeUrls
          [\<lparr>url = ''one'', lastReceivedMs = 100\<rparr>, \<lparr>url = ''three'', lastReceivedMs = 3\<rparr>]
          [\<lparr>url = ''one'', lastReceivedMs = 1\<rparr>, \<lparr>url = ''two'', lastReceivedMs = 2\<rparr>]) =
     {\<lparr>url = ''one'', lastReceivedMs = 100\<rparr>, \<lparr>url = ''three'', lastReceivedMs = 3\<rparr>,
      \<lparr>url = ''two'', lastReceivedMs = 2\<rparr>}"
proof (intro conjI ballI)
  show "distinct (map url (mergeUrls oldUrls newUrls))"
    by (simp add: mergeUrls_def fold_upsertUrl_distinct)
  show "url ` set (mergeUrls oldUrls newUrls) = url ` set oldUrls \<union> url ` set newUrls"
    by (auto simp: mergeUrls_def fold_upsertUrl_urls)
  show "set (mergeUrls oldUrls newUrls) \<subseteq> set oldUrls \<union> set newUrls"
    using fold_upsertUrl_subset [of "oldUrls @ newUrls" "[]"] by (simp add: mergeUrls_def)
  show "\<exists>r \<in> set (mergeUrls oldUrls newUrls). url r = url x \<and> lastReceivedMs x \<le> lastReceivedMs r"
    if "x \<in> set oldUrls \<union> set newUrls" for x
    using that fold_upsertUrl_dominates [of x "oldUrls @ newUrls" "[]"] by (simp add: mergeUrls_def)
  show "set (mergeUrls
          [\<lparr>url = ''one'', lastReceivedMs = 100\<rparr>, \<lparr>url = ''three'', lastReceivedMs = 3\<rparr>]
          [\<lparr>url = ''one'', lastReceivedMs = 1\<rparr>, \<lparr>url = ''two'', lastReceivedMs = 2\<rparr>]) =
     {\<lparr>url = ''one'', lastReceivedMs = 100\<rparr>, \<lparr>url = ''three'', lastReceivedMs = 3\<rparr>,
      \<lparr>url = ''two'', lastReceivedMs = 2\<rparr>}"
    by (simp add: mergeUrls_def)
qed

theorem mergeUrls_union_keeps_freshest_witness:
  "distinct (map url (mergeUrls [\<lparr>url = ''a'', lastReceivedMs = 5\<rparr>] [\<lparr>url = ''a'', lastReceivedMs = 7\<rparr>, \<lparr>url = ''b'', lastReceivedMs = 1\<rparr>])) \<and>
   url ` set (mergeUrls [\<lparr>url = ''a'', lastReceivedMs = 5\<rparr>] [\<lparr>url = ''a'', lastReceivedMs = 7\<rparr>, \<lparr>url = ''b'', lastReceivedMs = 1\<rparr>]) = {''a'', ''b''} \<and>
   (\<exists>r \<in> set (mergeUrls [\<lparr>url = ''a'', lastReceivedMs = 5\<rparr>] [\<lparr>url = ''a'', lastReceivedMs = 7\<rparr>, \<lparr>url = ''b'', lastReceivedMs = 1\<rparr>]).
        url r = ''a'' \<and> 7 \<le> lastReceivedMs r) \<and>
   mergeUrls [\<lparr>url = ''a'', lastReceivedMs = 5\<rparr>] [\<lparr>url = ''a'', lastReceivedMs = 7\<rparr>, \<lparr>url = ''b'', lastReceivedMs = 1\<rparr>] =
     [\<lparr>url = ''a'', lastReceivedMs = 7\<rparr>, \<lparr>url = ''b'', lastReceivedMs = 1\<rparr>]"
  using mergeUrls_union_keeps_freshest [of "[\<lparr>url = ''a'', lastReceivedMs = 5\<rparr>]" "[\<lparr>url = ''a'', lastReceivedMs = 7\<rparr>, \<lparr>url = ''b'', lastReceivedMs = 1\<rparr>]"]
  by (simp add: mergeUrls_def)


section \<open>The signed-data fetcher: what is proved\<close>


lemma fetchUrl_frame:
  "timers (fetchUrl api beacons setPoint u rt) = timers rt"
  "nextTimer (fetchUrl api beacons setPoint u rt) = nextTimer rt"
  "dataFetcherInterval (state (fetchUrl api beacons setPoint u rt)) = dataFetcherInterval (state rt)"
proof -
  have step: "timers (fold (\<lambda>element. updateState (\<lambda>draft.
                draft\<lparr>signedApiStore := setPoint element (signedApiStore draft)\<rparr>)) es r) = timers r \<and>
        nextTimer (fold (\<lambda>element. updateState (\<lambda>draft.
                draft\<lparr>signedApiStore := setPoint element (signedApiStore draft)\<rparr>)) es r) = nextTimer r \<and>
        dataFetcherInterval (state (fold (\<lambda>element. updateState (\<lambda>draft.
                draft\<lparr>signedApiStore := setPoint element (signedApiStore draft)\<rparr>)) es r)) =
          dataFetcherInterval (state r)" for es r
    by (induction es arbitrary: r) (simp_all add: updateState_def)
  show "timers (fetchUrl api beacons setPoint u rt) = timers rt"
    "nextTimer (fetchUrl api beacons setPoint u rt) = nextTimer rt"
    "dataFetcherInterval (state (fetchUrl api beacons setPoint u rt)) = dataFetcherInterval (state rt)"
    by (simp_all add: fetchUrl_def logger_def step Let_def split: sum.split)
qed

lemma fold_fetchUrl_frame:
  "timers (fold (fetchUrl api beacons setPoint) us rt) = timers rt \<and>
   nextTimer (fold (fetchUrl api beacons setPoint) us rt) = nextTimer rt \<and>
   dataFetcherInterval (state (fold (fetchUrl api beacons setPoint) us rt)) =
     dataFetcherInterval (state rt)"
  by (induction us arbitrary: rt) (simp_all add: fetchUrl_frame)

lemma runDataFetcher_unregistered:
  assumes "dataFetcherInterval (state rt) = None"
  shows "timers (runDataFetcher api beacons setPoint purge rt) =
           timers rt @ [\<lparr>handle = nextTimer rt,
                          periodMs = signedDataFetchInterval (state rt) * 1000,
                          callback = RunDataFetcher\<rparr>]"
    and "dataFetcherInterval (state (runDataFetcher api beacons setPoint purge rt)) =
           Some (nextTimer rt)"
  using assms
  by (simp_all add: runDataFetcher_def Let_def fold_fetchUrl_frame updateState_def logger_def
      setInterval_def)

lemma runDataFetcher_registered:
  assumes "dataFetcherInterval (state rt) = Some h"
  shows "timers (runDataFetcher api beacons setPoint purge rt) = timers rt"
    and "dataFetcherInterval (state (runDataFetcher api beacons setPoint purge rt)) = Some h"
  using assms
  by (simp_all add: runDataFetcher_def Let_def fold_fetchUrl_frame updateState_def logger_def)

lemma stopDataFetcher_frame:
  "fetcherTimers (stopDataFetcher rt) =
     filter (\<lambda>t. Some (handle t) \<noteq> dataFetcherInterval (state rt)) (fetcherTimers rt)"
  "state (stopDataFetcher rt) = state rt"
  by (simp_all add: fetcherTimers_def stopDataFetcher_def clearInterval_def conj_commute)

lemma reachable_oneFetcherTimer: "reachable rt \<Longrightarrow> oneFetcherTimer rt"
proof (induction rule: reachable.induct)
  case (start rt)
  then show ?case by (simp add: oneFetcherTimer_def initial_def)
next
  case (run rt api beacons setPoint purge)
  show ?case
  proof (cases "dataFetcherInterval (state rt)")
    case None
    with run.IH have "fetcherTimers rt = []"
      by (auto simp: oneFetcherTimer_def)
    with None show ?thesis
      by (simp add: oneFetcherTimer_def fetcherTimers_def runDataFetcher_unregistered)
  next
    case (Some h)
    with run.IH show ?thesis
      by (simp add: oneFetcherTimer_def fetcherTimers_def runDataFetcher_registered)
  qed
next
  case (stop rt)
  then show ?case
    unfolding oneFetcherTimer_def stopDataFetcher_frame by auto
qed

text \<open>
  Claim C9: \<open>runDataFetcher\<close> registers its timer only when the process state records no
  fetcher interval handle, and then records the handle of the timer it registered. When a
  handle is recorded, a run leaves the handle and the registered timers as they are. So in
  every runtime the fetcher can reach, at most one fetcher timer is registered.
\<close>

theorem runDataFetcher_registers_once:
  "(dataFetcherInterval (state rt) = None \<longrightarrow>
      timers (runDataFetcher api beacons setPoint purge rt) =
        timers rt @ [\<lparr>handle = nextTimer rt,
                       periodMs = signedDataFetchInterval (state rt) * 1000,
                       callback = RunDataFetcher\<rparr>] \<and>
      dataFetcherInterval (state (runDataFetcher api beacons setPoint purge rt)) =
        Some (nextTimer rt)) \<and>
   (dataFetcherInterval (state rt) = Some h \<longrightarrow>
      timers (runDataFetcher api beacons setPoint purge rt) = timers rt \<and>
      dataFetcherInterval (state (runDataFetcher api beacons setPoint purge rt)) = Some h) \<and>
   (reachable rt \<longrightarrow> length (fetcherTimers rt) \<le> 1)"
proof (intro conjI impI)
  assume "reachable rt"
  then have "oneFetcherTimer rt" by (rule reachable_oneFetcherTimer)
  then show "length (fetcherTimers rt) \<le> 1"
    by (auto simp: oneFetcherTimer_def)
qed (simp_all add: runDataFetcher_unregistered runDataFetcher_registered)


theorem runDataFetcher_registers_once_witness:
  "dataFetcherInterval (state \<lparr>state = \<lparr>signedDataFetchInterval = 10, signedApiUrlStore = [],
       dataFetcherInterval = None, signedApiStore = ()\<rparr>, timers = [], nextTimer = 0, logs = []\<rparr>) = None \<and>
   timers (runDataFetcher (\<lambda>u. Inr []) [] (\<lambda>p st. st) (\<lambda>st. st)
     \<lparr>state = \<lparr>signedDataFetchInterval = 10, signedApiUrlStore = [],
       dataFetcherInterval = None, signedApiStore = ()\<rparr>, timers = [], nextTimer = 0, logs = []\<rparr>) =
     [\<lparr>handle = 0, periodMs = 10000, callback = RunDataFetcher\<rparr>] \<and>
   dataFetcherInterval (state \<lparr>state = \<lparr>signedDataFetchInterval = 10, signedApiUrlStore = [],
       dataFetcherInterval = Some 0, signedApiStore = ()\<rparr>,
       timers = [\<lparr>handle = 0, periodMs = 10000, callback = RunDataFetcher\<rparr>], nextTimer = 1, logs = []\<rparr>) = Some 0 \<and>
   timers (runDataFetcher (\<lambda>u. Inr []) [] (\<lambda>p st. st) (\<lambda>st. st)
     \<lparr>state = \<lparr>signedDataFetchInterval = 10, signedApiUrlStore = [],
       dataFetcherInterval = Some 0, signedApiStore = ()\<rparr>,
       timers = [\<lparr>handle = 0, periodMs = 10000, callback = RunDataFetcher\<rparr>], nextTimer = 1, logs = []\<rparr>) =
     [\<lparr>handle = 0, periodMs = 10000, callback = RunDataFetcher\<rparr>] \<and>
   reachable (runDataFetcher (\<lambda>u. Inr []) [] (\<lambda>p st. st) (\<lambda>st. st)
     \<lparr>state = \<lparr>signedDataFetchInterval = 10, signedApiUrlStore = [],
       dataFetcherInterval = None, signedApiStore = ()\<rparr>, timers = [], nextTimer = 0, logs = []\<rparr>) \<and>
   length (fetcherTimers (runDataFetcher (\<lambda>u. Inr []) [] (\<lambda>p st. st) (\<lambda>st. st)
     \<lparr>state = \<lparr>signedDataFetchInterval = 10, signedApiUrlStore = [],
       dataFetcherInterval = None, signedApiStore = ()\<rparr>, timers = [], nextTimer = 0, logs = []\<rparr>)) \<le> 1"
proof -
  let ?rt0 = "\<lparr>state = \<lparr>signedDataFetchInterval = 10, signedApiUrlStore = [],
       dataFetcherInterval = None, signedApiStore = ()\<rparr>, timers = [], nextTimer = 0, logs = []\<rparr>"
  let ?rt1 = "\<lparr>state = \<lparr>signedDataFetchInterval = 10, signedApiUrlStore = [],
       dataFetcherInterval = Some 0, signedApiStore = ()\<rparr>,
       timers = [\<lparr>handle = 0, periodMs = 10000, callback = RunDataFetcher\<rparr>], nextTimer = 1, logs = []\<rparr>"
  let ?run = "runDataFetcher (\<lambda>u. Inr []) [] (\<lambda>p st. st) (\<lambda>st. st)"
  have "initial ?rt0"
    by (simp add: initial_def fetcherTimers_def)
  then have r: "reachable (?run ?rt0)"
    by (intro reachable.run reachable.start)
  show ?thesis
    using r runDataFetcher_registers_once [of ?rt0 "\<lambda>u. Inr []" "[]" "\<lambda>p st. st" "\<lambda>st. st" 0]
      runDataFetcher_registers_once [of ?rt1 "\<lambda>u. Inr []" "[]" "\<lambda>p st. st" "\<lambda>st. st" 0]
      runDataFetcher_registers_once [of "?run ?rt0" "\<lambda>u. Inr []" "[]" "\<lambda>p st. st" "\<lambda>st. st" 0]
    by simp
qed


end
